theory Spec2Isabelle
  imports Main "HOL-Library.Sublist" "HOL-Library.Word" "HOL-Library.Log_Nat"
begin

section \<open>Data model of main.go\<close>

text \<open>
  Go strings and byte slices are byte sequences; a non-nil Go \<^verbatim>\<open>error\<close> is kept by its
  message. A \<^verbatim>\<open>float64\<close> that comes out of a JSON number or out of an integer conversion
  is finite, and is kept by its exact rational value.
\<close>

type_synonym bytes = string
type_synonym go_error = string
type_synonym float64 = rat

text \<open>\<^verbatim>\<open>type DebugData struct\<close> (main.go, lines 19 to 28).\<close>

record DebugData =
  Description :: string
  DevtoolsFrontendURL :: string
  FaviconURL :: string
  ID :: string
  Title :: string
  PageType :: string
  URL :: string
  WebSocketDebuggerURL :: string

text \<open>\<^verbatim>\<open>type Cookie struct\<close> (lines 42 to 54).\<close>

record Cookie =
  Name :: string
  Value :: string
  Domain :: string
  Path :: string
  Expires :: float64
  Size :: int
  HTTPOnly :: bool
  Secure :: bool
  Session :: bool
  SameSite :: string
  Priority :: string

text \<open>\<^verbatim>\<open>type WebsocketResponseNested struct\<close> and \<^verbatim>\<open>type WebsocketResponseRoot struct\<close>
  (lines 31 to 39).\<close>

record WebsocketResponseNested =
  Cookies :: "Cookie list"

record WebsocketResponseRoot =
  ID :: int
  Result :: WebsocketResponseNested

text \<open>\<^verbatim>\<open>type LightCookie struct\<close> (lines 57 to 63); its \<^verbatim>\<open>Expires\<close> field is the one
  serialised as \<^verbatim>\<open>expirationDate\<close>.\<close>

record LightCookie =
  Name :: string
  Value :: string
  Domain :: string
  Path :: string
  Expires :: float64

section \<open>The outside world\<close>

text \<open>
  Everything the program gets from its libraries and from the network is a field of the
  environment: the answer of \<^verbatim>\<open>http.Get\<close> with the outcome of \<^verbatim>\<open>io.ReadAll\<close> on its body,
  the three uses of \<^verbatim>\<open>encoding/json\<close>, \<^verbatim>\<open>os.ReadFile\<close>, the websocket dialer (an
  expired ten-second context is one of its errors), the outcome of a write, the peer behind
  the connection (it never sends, or the read fails, or it sends a message), the wall clock
  (the value of the k-th call of \<^verbatim>\<open>time.Now().Unix()\<close>) and the \<^verbatim>\<open>%f\<close> verb of
  \<^verbatim>\<open>fmt\<close>. A nil slice and an empty slice are both the empty list; the source never
  tells them apart.
\<close>

record http_Response =
  StatusCode :: int
  Body :: "go_error + bytes"

datatype received = NoMessage | ReadError go_error | Message bytes

record env =
  http_Get :: "string \<Rightarrow> go_error + http_Response"
  json_Unmarshal_debugList :: "bytes \<Rightarrow> go_error + DebugData list"
  json_Unmarshal_root :: "bytes \<Rightarrow> go_error + WebsocketResponseRoot"
  json_Marshal :: "LightCookie list \<Rightarrow> go_error + bytes"
  os_ReadFile :: "string \<Rightarrow> go_error + bytes"
  ws_Dial :: "string \<Rightarrow> go_error option"
  ws_Write :: "bytes \<Rightarrow> go_error option"
  ws_Peer :: received
  unix_clock :: "nat \<Rightarrow> 64 word"
  fmt_f :: "float64 \<Rightarrow> string"

text \<open>
  What the program does to the world: the bytes written to standard output, the calls made
  on the websocket dialer and connection in the order they happen, and the number of clock
  readings taken so far.
\<close>

datatype event = Dial string | SetLimit int | Write bytes | Read | Close

record world =
  stdout :: bytes
  session :: "event list"
  clock_reads :: nat

text \<open>
  How a function of main.go can end other than by returning: \<^verbatim>\<open>log.Fatalf\<close> (one
  constructor per message of the source, with the error it formats), the runtime panic of
  an index out of range, and a \<^verbatim>\<open>ReadMessage\<close> that never returns.
\<close>

datatype fatal =
    FailedToGetDebugData go_error
  | FailedToReadResponseBody go_error
  | FailedToUnmarshalJSON go_error
  | FailedToDialWebsocket go_error
  | FailedToSendMessage go_error
  | FailedToReadResponse go_error
  | FailedToMarshalJSON go_error
  | FailedToReadFile go_error

datatype failure = Fatal fatal | PanicIndexOutOfRange | BlockedForever

section \<open>Library functions the source calls\<close>

text \<open>\<^verbatim>\<open>strings.Index\<close> and \<^verbatim>\<open>strings.Contains\<close>: the position of the first occurrence of
  \<^verbatim>\<open>substr\<close> in \<^verbatim>\<open>s\<close>, or -1; bytes are compared as they are.\<close>

fun strings_Index :: "string \<Rightarrow> string \<Rightarrow> int" where
  "strings_Index [] substr = (if substr = [] then 0 else - 1)"
| "strings_Index (c # s) substr =
     (if prefix substr (c # s) then 0
      else (let i = strings_Index s substr in if i < 0 then - 1 else i + 1))"

definition strings_Contains :: "string \<Rightarrow> string \<Rightarrow> bool" where
  "strings_Contains s substr = (0 \<le> strings_Index s substr)"

text \<open>\<^verbatim>\<open>fmt.Printf\<close> appends to standard output. The verbs \<^verbatim>\<open>%t\<close> and \<^verbatim>\<open>%d\<close> are written
  out; \<^verbatim>\<open>%s\<close> is the string itself.\<close>

definition Printf :: "bytes \<Rightarrow> world \<Rightarrow> world" where
  "Printf s w = w\<lparr>stdout := stdout w @ s\<rparr>"

definition fmt_t :: "bool \<Rightarrow> string" where
  "fmt_t b = (if b then ''true'' else ''false'')"

fun decimal :: "nat \<Rightarrow> string" where
  "decimal n =
     (if n < 10 then [''0123456789'' ! n]
      else decimal (n div 10) @ [''0123456789'' ! (n mod 10)])"

definition fmt_d :: "int \<Rightarrow> string" where
  "fmt_d k = (if k < 0 then ''-'' @ decimal (nat (- k)) else decimal (nat k))"

text \<open>The conversion \<^verbatim>\<open>float64(x)\<close> of an \<^verbatim>\<open>int64\<close>: exact up to 53 bits, rounded to the
  nearest value with a 53-bit significand (ties to even) above.\<close>

definition round_float64 :: "int \<Rightarrow> float64" where
  "round_float64 k =
     (let a = \<bar>k\<bar>; e = bitlen a - 53 in
      if e \<le> 0 then of_int k
      else (let m = 2 ^ nat e; q = a div m; r = a mod m; h = m div 2;
                q' = (if h < r \<or> (r = h \<and> odd q) then q + 1 else q)
            in of_int (sgn k * q' * m)))"

definition float64_of_int64 :: "64 word \<Rightarrow> float64" where
  "float64_of_int64 x = round_float64 (sint x)"

text \<open>\<^verbatim>\<open>time.Now().Unix()\<close> takes the next reading of the clock.\<close>

definition time_Now_Unix :: "env \<Rightarrow> world \<Rightarrow> 64 word \<times> world" where
  "time_Now_Unix e w = (unix_clock e (clock_reads w), w\<lparr>clock_reads := Suc (clock_reads w)\<rparr>)"

text \<open>
  The connection of gorilla/websocket, as far as the source uses it. A fresh connection has
  no read limit (0). \<^verbatim>\<open>SetReadLimit\<close> stores the limit; \<^verbatim>\<open>ReadMessage\<close> blocks until the
  peer sends a message, and returns \<^verbatim>\<open>ErrReadLimit\<close> instead of a message longer than a
  positive limit.
\<close>

record Conn =
  readLimit :: int

definition new_Conn :: Conn where
  "new_Conn = \<lparr>readLimit = 0\<rparr>"

definition SetReadLimit :: "Conn \<Rightarrow> int \<Rightarrow> Conn" where
  "SetReadLimit conn limit = conn\<lparr>readLimit := limit\<rparr>"

definition ErrReadLimit :: go_error where
  "ErrReadLimit = ''websocket: read limit exceeded''"

definition ReadMessage :: "env \<Rightarrow> Conn \<Rightarrow> received" where
  "ReadMessage e conn =
     (case ws_Peer e of
        NoMessage \<Rightarrow> NoMessage
      | ReadError err \<Rightarrow> ReadError err
      | Message m \<Rightarrow>
          if 0 < readLimit conn \<and> readLimit conn < int (length m)
          then ReadError ErrReadLimit else Message m)"

definition call :: "event \<Rightarrow> world \<Rightarrow> world" where
  "call ev w = w\<lparr>session := session w @ [ev]\<rparr>"

section \<open>The functions of main.go\<close>

text \<open>\<^verbatim>\<open>GetDebugData\<close> (lines 66 to 85). The status code of the response is never read.\<close>

definition GetDebugData :: "env \<Rightarrow> string \<Rightarrow> failure + DebugData list" where
  "GetDebugData e debugPort =
     (let debugURL = ''http://localhost:'' @ debugPort @ ''/json'' in
      case http_Get e debugURL of
        Inl err \<Rightarrow> Inl (Fatal (FailedToGetDebugData err))
      | Inr resp \<Rightarrow>
          (case Body resp of
             Inl err \<Rightarrow> Inl (Fatal (FailedToReadResponseBody err))
           | Inr body \<Rightarrow>
               (case json_Unmarshal_debugList e body of
                  Inl err \<Rightarrow> Inl (Fatal (FailedToUnmarshalJSON err))
                | Inr debugList \<Rightarrow> Inr debugList)))"




text \<open>The loop of lines 141 to 153: one \<^verbatim>\<open>LightCookie\<close> appended per cookie that passes
  the test, each with its own reading of the clock.\<close>

fun lightCookie_loop ::
  "env \<Rightarrow> bool \<Rightarrow> string \<Rightarrow> Cookie list \<Rightarrow> LightCookie list \<Rightarrow> world
     \<Rightarrow> LightCookie list \<times> world" where
  "lightCookie_loop e grepFlag grep [] lightCookieList w = (lightCookieList, w)"
| "lightCookie_loop e grepFlag grep (c # rest) lightCookieList w =
     (if \<not> grepFlag \<or> strings_Contains (Cookie.Name c) grep
          \<or> strings_Contains (Cookie.Domain c) grep
      then (case time_Now_Unix e w of
              (now, w') \<Rightarrow>
                (let lightCookie =
                       \<lparr>LightCookie.Name = Cookie.Name c,
                        LightCookie.Value = Cookie.Value c,
                        LightCookie.Domain = Cookie.Domain c,
                        LightCookie.Path = Cookie.Path c,
                        LightCookie.Expires =
                          float64_of_int64 (now + (10 * 365 * 24 * 60 * 60))\<rparr>
                 in lightCookie_loop e grepFlag grep rest
                      (lightCookieList @ [lightCookie]) w'))
      else lightCookie_loop e grepFlag grep rest lightCookieList w)"

text \<open>The loop of lines 163 to 177: the eleven \<^verbatim>\<open>Printf\<close> calls of its body, and the
  loop.\<close>

definition print_Cookie :: "env \<Rightarrow> Cookie \<Rightarrow> world \<Rightarrow> world" where
  "print_Cookie e c w =
     Printf (''priority: '' @ Cookie.Priority c @ ''\<newline>\<newline>'')
      (Printf (''sameSite: '' @ Cookie.SameSite c @ ''\<newline>'')
       (Printf (''session: '' @ fmt_t (Cookie.Session c) @ ''\<newline>'')
        (Printf (''secure: '' @ fmt_t (Cookie.Secure c) @ ''\<newline>'')
         (Printf (''httpOnly: '' @ fmt_t (Cookie.HTTPOnly c) @ ''\<newline>'')
          (Printf (''size: '' @ fmt_d (Cookie.Size c) @ ''\<newline>'')
           (Printf (''expires: '' @ fmt_f e (Cookie.Expires c) @ ''\<newline>'')
            (Printf (''path: '' @ Cookie.Path c @ ''\<newline>'')
             (Printf (''domain: '' @ Cookie.Domain c @ ''\<newline>'')
              (Printf (''value: '' @ Cookie.Value c @ ''\<newline>'')
               (Printf (''name: '' @ Cookie.Name c @ ''\<newline>'') w))))))))))"

fun human_loop :: "env \<Rightarrow> bool \<Rightarrow> string \<Rightarrow> Cookie list \<Rightarrow> world \<Rightarrow> world" where
  "human_loop e grepFlag grep [] w = w"
| "human_loop e grepFlag grep (c # rest) w =
     (if \<not> grepFlag \<or> strings_Contains (Cookie.Name c) grep
          \<or> strings_Contains (Cookie.Domain c) grep
      then human_loop e grepFlag grep rest (print_Cookie e c w)
      else human_loop e grepFlag grep rest w)"

text \<open>
  \<^verbatim>\<open>DumpCookies\<close> (lines 102 to 178). \<^verbatim>\<open>debugList[0]\<close> panics on an empty list.
  \<^verbatim>\<open>log.Fatalf\<close> exits the process, so the deferred \<^verbatim>\<open>conn.Close()\<close> runs on the three
  returns only.
\<close>

definition DumpCookies ::
  "env \<Rightarrow> DebugData list \<Rightarrow> string \<Rightarrow> string \<Rightarrow> world \<Rightarrow> (failure + unit) \<times> world" where
  \<open>DumpCookies e debugList format grep w =
     (let grepFlag = (0 < length grep) in
      case debugList of
        [] \<Rightarrow> (Inl PanicIndexOutOfRange, w)
      | d # _ \<Rightarrow>
          (let websocketURL = WebSocketDebuggerURL d;
               w1 = call (Dial websocketURL) w in
           case ws_Dial e websocketURL of
             Some err \<Rightarrow> (Inl (Fatal (FailedToDialWebsocket err)), w1)
           | None \<Rightarrow>
               (let conn = SetReadLimit new_Conn (10 * 1024 * 1024);
                    w2 = call (SetLimit (readLimit conn)) w1;
                    message = ''{"id": 1, "method":"Network.getAllCookies"}'';
                    w3 = call (Write message) w2 in
                case ws_Write e message of
                  Some err \<Rightarrow> (Inl (Fatal (FailedToSendMessage err)), w3)
                | None \<Rightarrow>
                    (let w4 = call Read w3 in
                     case ReadMessage e conn of
                       NoMessage \<Rightarrow> (Inl BlockedForever, w4)
                     | ReadError err \<Rightarrow> (Inl (Fatal (FailedToReadResponse err)), w4)
                     | Message rawResponse \<Rightarrow>
                         (case json_Unmarshal_root e rawResponse of
                            Inl err \<Rightarrow> (Inl (Fatal (FailedToUnmarshalJSON err)), w4)
                          | Inr websocketResponseRoot \<Rightarrow>
                              if format = ''raw''
                              then (Inr (), call Close (Printf (rawResponse @ ''\<newline>'') w4))
                              else if format = ''modified''
                              then
                                (case lightCookie_loop e grepFlag grep
                                        (Cookies (Result websocketResponseRoot)) [] w4 of
                                   (lightCookieList, w5) \<Rightarrow>
                                     (case json_Marshal e lightCookieList of
                                        Inl err \<Rightarrow> (Inl (Fatal (FailedToMarshalJSON err)), w5)
                                      | Inr lightCookieJSON \<Rightarrow>
                                          (Inr (),
                                           call Close
                                             (Printf (lightCookieJSON @ ''\<newline>'') w5))))
                              else
                                (Inr (),
                                 call Close
                                   (human_loop e grepFlag grep
                                      (Cookies (Result websocketResponseRoot)) w4)))))))\<close>

text \<open>\<^verbatim>\<open>ClearCookies\<close> (lines 180 to 199).\<close>

definition ClearCookies :: "env \<Rightarrow> DebugData list \<Rightarrow> world \<Rightarrow> (failure + unit) \<times> world" where
  \<open>ClearCookies e debugList w =
     (case debugList of
        [] \<Rightarrow> (Inl PanicIndexOutOfRange, w)
      | d # _ \<Rightarrow>
          (let websocketURL = WebSocketDebuggerURL d;
               w1 = call (Dial websocketURL) w in
           case ws_Dial e websocketURL of
             Some err \<Rightarrow> (Inl (Fatal (FailedToDialWebsocket err)), w1)
           | None \<Rightarrow>
               (let conn = SetReadLimit new_Conn (10 * 1024 * 1024);
                    w2 = call (SetLimit (readLimit conn)) w1;
                    message = ''{"id": 1, "method": "Network.clearBrowserCookies"}'';
                    w3 = call (Write message) w2 in
                case ws_Write e message of
                  Some err \<Rightarrow> (Inl (Fatal (FailedToSendMessage err)), w3)
                | None \<Rightarrow> (Inr (), call Close w3))))\<close>

text \<open>\<^verbatim>\<open>LoadCookies\<close> (lines 201 to 225). The file is read before the list is indexed;
  \<^verbatim>\<open>%s\<close> puts the bytes of the file into the message as they are.\<close>

definition LoadCookies ::
  "env \<Rightarrow> DebugData list \<Rightarrow> string \<Rightarrow> world \<Rightarrow> (failure + unit) \<times> world" where
  \<open>LoadCookies e debugList load w =
     (case os_ReadFile e load of
        Inl err \<Rightarrow> (Inl (Fatal (FailedToReadFile err)), w)
      | Inr content \<Rightarrow>
          (case debugList of
             [] \<Rightarrow> (Inl PanicIndexOutOfRange, w)
           | d # _ \<Rightarrow>
               (let websocketURL = WebSocketDebuggerURL d;
                    w1 = call (Dial websocketURL) w in
                case ws_Dial e websocketURL of
                  Some err \<Rightarrow> (Inl (Fatal (FailedToDialWebsocket err)), w1)
                | None \<Rightarrow>
                    (let conn = SetReadLimit new_Conn (10 * 1024 * 1024);
                         w2 = call (SetLimit (readLimit conn)) w1;
                         message =
                           ''{"id": 1, "method":"Network.setCookies", "params":{"cookies":''
                             @ content @ ''}}'';
                         w3 = call (Write message) w2 in
                     case ws_Write e message of
                       Some err \<Rightarrow> (Inl (Fatal (FailedToSendMessage err)), w3)
                     | None \<Rightarrow> (Inr (), call Close w3)))))\<close>

section \<open>The specification's notions\<close>

text \<open>
  The filter of the specification, in its words: an entry is kept iff the filter term is
  empty, or the term occurs as a contiguous run of bytes in one of the two designated fields
  (name or domain of a cookie, title or url of a target).
\<close>

definition keep_cookie :: "string \<Rightarrow> Cookie \<Rightarrow> bool" where
  "keep_cookie t c \<longleftrightarrow> t = [] \<or> sublist t (Cookie.Name c) \<or> sublist t (Cookie.Domain c)"


text \<open>The reduced cookie of the specification for a cookie transcoded at the time \<open>now\<close>:
  the four fields copied, the expiry ten years (315360000 seconds) after \<open>now\<close>.\<close>

definition reduced_at :: "int \<Rightarrow> Cookie \<Rightarrow> LightCookie" where
  "reduced_at now c =
     \<lparr>LightCookie.Name = Cookie.Name c, LightCookie.Value = Cookie.Value c,
      LightCookie.Domain = Cookie.Domain c, LightCookie.Path = Cookie.Path c,
      LightCookie.Expires = of_int (now + 315360000)\<rparr>"

text \<open>The addresses dialled so far, in order.\<close>

definition dialled :: "world \<Rightarrow> string list" where
  "dialled w = concat (map (\<lambda>ev. case ev of Dial u \<Rightarrow> [u] | _ \<Rightarrow> []) (session w))"

text \<open>The messages written so far, in order.\<close>

definition written :: "world \<Rightarrow> bytes list" where
  "written w = concat (map (\<lambda>ev. case ev of Write m \<Rightarrow> [m] | _ \<Rightarrow> []) (session w))"

section \<open>A concrete browser\<close>

text \<open>
  One world to run the functions in: a browser with a mail tab and a documentation tab and
  two cookies, a clock that advances by a second between two readings, and a file
  \<^verbatim>\<open>cookies.json\<close>. The JSON functions are given by the values they take on the texts
  that occur.
\<close>

definition world0 :: world where
  "world0 = \<lparr>stdout = [], session = [], clock_reads = 0\<rparr>"

definition mail_tab :: DebugData where
  "mail_tab =
     \<lparr>Description = [], DevtoolsFrontendURL = ''/devtools/inspector.html?ws=localhost:9222/devtools/page/A1'',
      FaviconURL = [], DebugData.ID = ''A1'', Title = ''Inbox'', PageType = ''page'',
      URL = ''https://mail.example.com/'',
      WebSocketDebuggerURL = ''ws://localhost:9222/devtools/page/A1''\<rparr>"

definition docs_tab :: DebugData where
  "docs_tab =
     \<lparr>Description = [], DevtoolsFrontendURL = ''/devtools/inspector.html?ws=localhost:9222/devtools/page/B2'',
      FaviconURL = [], DebugData.ID = ''B2'', Title = ''Manual'', PageType = ''page'',
      URL = ''https://docs.example.com/'',
      WebSocketDebuggerURL = ''ws://localhost:9222/devtools/page/B2''\<rparr>"

definition sid_cookie :: Cookie where
  "sid_cookie =
     \<lparr>Cookie.Name = ''sid'', Cookie.Value = ''abc'', Cookie.Domain = ''mail.example.com'',
      Cookie.Path = ''/'', Cookie.Expires = 1700000000, Size = 6, HTTPOnly = True,
      Secure = True, Session = False, SameSite = ''Lax'', Priority = ''Medium''\<rparr>"

definition theme_cookie :: Cookie where
  "theme_cookie =
     \<lparr>Cookie.Name = ''theme'', Cookie.Value = ''dark'', Cookie.Domain = ''docs.example.com'',
      Cookie.Path = ''/'', Cookie.Expires = - 1, Size = 9, HTTPOnly = False,
      Secure = False, Session = True, SameSite = [], Priority = ''Medium''\<rparr>"

definition cookies_response :: bytes where
  \<open>cookies_response =
     ''{"id":1,"result":{"cookies":[{"name":"sid","value":"abc","domain":"mail.example.com","path":"/","expires":1700000000,"size":6,"httpOnly":true,"secure":true,"session":false,"sameSite":"Lax","priority":"Medium"},{"name":"theme","value":"dark","domain":"docs.example.com","path":"/","expires":-1,"size":9,"httpOnly":false,"secure":false,"session":true,"priority":"Medium"}]}}''\<close>

definition cookies_file :: bytes where
  \<open>cookies_file = ''[{"name":"a","value":"b","domain":"x.com","path":"/"}]''\<close>

definition browser :: env where
  \<open>browser =
     \<lparr>http_Get = (\<lambda>u. if u = ''http://localhost:9222/json''
                       then Inr \<lparr>StatusCode = 200, Body = Inr ''[{"id":"A1"},{"id":"B2"}]''\<rparr>
                       else Inl ''connect: connection refused''),
      json_Unmarshal_debugList =
        (\<lambda>b. if b = ''[{"id":"A1"},{"id":"B2"}]'' then Inr [mail_tab, docs_tab]
             else if b = ''[]'' then Inr []
             else Inl ''invalid character''),
      json_Unmarshal_root =
        (\<lambda>b. if b = cookies_response
             then Inr \<lparr>WebsocketResponseRoot.ID = 1,
                       Result = \<lparr>Cookies = [sid_cookie, theme_cookie]\<rparr>\<rparr>
             else Inl ''invalid character''),
      json_Marshal =
        (\<lambda>l. if l = [] then Inr ''null''
             else if l = [reduced_at 1700000000 sid_cookie]
             then Inr ''[{"name":"sid","value":"abc","domain":"mail.example.com","path":"/","expirationDate":2015360000}]''
             else Inr ''[{"name":"sid","value":"abc","domain":"mail.example.com","path":"/","expirationDate":2015360000},{"name":"theme","value":"dark","domain":"docs.example.com","path":"/","expirationDate":2015360001}]''),
      os_ReadFile = (\<lambda>p. if p = ''cookies.json'' then Inr cookies_file
                          else Inl ''no such file or directory''),
      ws_Dial = (\<lambda>u. None),
      ws_Write = (\<lambda>m. None),
      ws_Peer = Message cookies_response,
      unix_clock = (\<lambda>k. if k = 0 then 1700000000 else 1700000001),
      fmt_f = (\<lambda>x. if x = 1700000000 then ''1700000000.000000'' else ''-1.000000'')\<rparr>\<close>

text \<open>The same browser answering the list request with status 404 and the body \<^verbatim>\<open>[]\<close>.\<close>

definition browser_404 :: env where
  \<open>browser_404 = browser\<lparr>http_Get := \<lambda>u. Inr \<lparr>StatusCode = 404, Body = Inr ''[]''\<rparr>\<rparr>\<close>

section \<open>Auxiliary facts\<close>

lemma strings_Index_nonneg_iff: "0 \<le> strings_Index s substr \<longleftrightarrow> sublist substr s"
proof (induction s)
  case Nil
  show ?case by simp
next
  case (Cons c s)
  show ?case
  proof (cases "prefix substr (c # s)")
    case True
    then show ?thesis by (simp add: sublist_Cons_right)
  next
    case False
    with Cons show ?thesis by (auto simp add: sublist_Cons_right Let_def)
  qed
qed

lemma strings_Contains_iff: "strings_Contains s substr \<longleftrightarrow> sublist substr s"
  by (simp add: strings_Contains_def strings_Index_nonneg_iff)

lemma cookie_test_iff:
  "(\<not> 0 < length grep \<or> strings_Contains (Cookie.Name c) grep
      \<or> strings_Contains (Cookie.Domain c) grep) \<longleftrightarrow> keep_cookie grep c"
  by (simp add: keep_cookie_def strings_Contains_iff)


section \<open>Clearing and loading cookies\<close>

text \<open>
  Claim C6. \<^verbatim>\<open>ClearCookies\<close> on a list with a first target, when the dial and the write
  succeed: it returns normally, and the calls it made on the connection are the dial, the
  read limit, one write of the clear command and the close. There is no read among them,
  and the outcome is the same whatever the peer does (\<open>p\<close> ranges over a peer that never
  answers, one whose connection fails and one that sends any message).
\<close>

theorem ClearCookies_fire_and_forget:
  assumes "debugList = d # ds"
    and "ws_Dial e (WebSocketDebuggerURL d) = None"
    and \<open>ws_Write e ''{"id": 1, "method": "Network.clearBrowserCookies"}'' = None\<close>
  shows \<open>ClearCookies (e\<lparr>ws_Peer := p\<rparr>) debugList w =
           (Inr (), w\<lparr>session := session w @
              [Dial (WebSocketDebuggerURL d), SetLimit 10485760,
               Write ''{"id": 1, "method": "Network.clearBrowserCookies"}'', Close]\<rparr>)\<close>
  using assms
  by (simp add: ClearCookies_def call_def SetReadLimit_def new_Conn_def)

theorem ClearCookies_fire_and_forget_witness:
  \<open>ClearCookies (browser\<lparr>ws_Peer := NoMessage\<rparr>) [mail_tab, docs_tab] world0 =
     (Inr (), world0\<lparr>session := session world0 @
        [Dial (WebSocketDebuggerURL mail_tab), SetLimit 10485760,
         Write ''{"id": 1, "method": "Network.clearBrowserCookies"}'', Close]\<rparr>)\<close>
proof -
  have dial: "ws_Dial browser (WebSocketDebuggerURL mail_tab) = None"
    by (simp add: browser_def)
  have send: \<open>ws_Write browser ''{"id": 1, "method": "Network.clearBrowserCookies"}'' = None\<close>
    by (simp add: browser_def)
  show ?thesis
    by (rule ClearCookies_fire_and_forget [OF refl dial send])
qed

text \<open>
  Claim C5. \<^verbatim>\<open>LoadCookies\<close>, when the file could be read, the list has a first target and
  the dial succeeds: whatever bytes \<open>content\<close> the file holds, the connection sees the dial,
  the read limit and exactly one write, of the text
  \<^verbatim>\<open>{"id": 1, "method":"Network.setCookies", "params":{"cookies":\<close> followed by the bytes of
  the file and \<^verbatim>\<open>}}\<close>. Nothing inspects \<open>content\<close>, nothing is read from the connection,
  and the function returns as soon as the write has succeeded.
\<close>

theorem LoadCookies_splices_file_verbatim:
  assumes "os_ReadFile e load = Inr content"
    and "debugList = d # ds"
    and "ws_Dial e (WebSocketDebuggerURL d) = None"
  shows \<open>LoadCookies e debugList load w =
    (let message =
           ''{"id": 1, "method":"Network.setCookies", "params":{"cookies":'' @ content @ ''}}'';
         sent = w\<lparr>session := session w @
                  [Dial (WebSocketDebuggerURL d), SetLimit 10485760, Write message]\<rparr>
     in case ws_Write e message of
          None \<Rightarrow> (Inr (), sent\<lparr>session := session sent @ [Close]\<rparr>)
        | Some err \<Rightarrow> (Inl (Fatal (FailedToSendMessage err)), sent))\<close>
  using assms
  by (simp add: LoadCookies_def call_def SetReadLimit_def new_Conn_def Let_def
      split: option.splits)

theorem LoadCookies_splices_file_verbatim_witness:
  \<open>LoadCookies browser [mail_tab, docs_tab] ''cookies.json'' world0 =
     (Inr (), world0\<lparr>session :=
        [Dial ''ws://localhost:9222/devtools/page/A1'', SetLimit 10485760,
         Write ''{"id": 1, "method":"Network.setCookies", "params":{"cookies":[{"name":"a","value":"b","domain":"x.com","path":"/"}]}}'',
         Close]\<rparr>)\<close>
proof -
  have readable: "os_ReadFile browser ''cookies.json'' = Inr cookies_file"
    by (simp add: browser_def)
  have dial: "ws_Dial browser (WebSocketDebuggerURL mail_tab) = None"
    by (simp add: browser_def)
  show ?thesis
    using LoadCookies_splices_file_verbatim [OF readable refl dial, of "[docs_tab]" world0]
    by (simp add: browser_def cookies_file_def mail_tab_def world0_def)
qed
section \<open>An empty list of targets\<close>

text \<open>
  Claim C10, amended. With an empty list of targets, \<^verbatim>\<open>DumpCookies\<close> and
  \<^verbatim>\<open>ClearCookies\<close> panic on \<^verbatim>\<open>debugList[0]\<close> before they have done anything else.
  \<^verbatim>\<open>LoadCookies\<close> reads its file first: it panics in the same way when the file could be
  read, and ends with the fatal message of the unreadable file otherwise.
\<close>

theorem empty_target_list_outcomes:
  "DumpCookies e [] format grep w = (Inl PanicIndexOutOfRange, w)
   \<and> ClearCookies e [] w = (Inl PanicIndexOutOfRange, w)
   \<and> LoadCookies e [] load w =
       (case os_ReadFile e load of
          Inl err \<Rightarrow> (Inl (Fatal (FailedToReadFile err)), w)
        | Inr content \<Rightarrow> (Inl PanicIndexOutOfRange, w))"
  by (simp add: DumpCookies_def ClearCookies_def LoadCookies_def split: sum.splits)

theorem empty_target_list_outcomes_witness:
  "DumpCookies browser [] ''modified'' ''sid'' world0 = (Inl PanicIndexOutOfRange, world0)
   \<and> ClearCookies browser [] world0 = (Inl PanicIndexOutOfRange, world0)
   \<and> LoadCookies browser [] ''cookies.json'' world0 = (Inl PanicIndexOutOfRange, world0)"
  using empty_target_list_outcomes [of browser "''modified''" "''sid''" world0 "''cookies.json''"]
  by (simp add: browser_def)

text \<open>
  The claim as it was stated fails for \<^verbatim>\<open>LoadCookies\<close>: with no target and a file that
  cannot be read, the run ends with \<^verbatim>\<open>Failed to read file\<close>, not with the panic.
\<close>

theorem LoadCookies_empty_list_counterexample:
  "fst (LoadCookies browser [] ''missing.json'' world0)
     = Inl (Fatal (FailedToReadFile ''no such file or directory''))
   \<and> fst (LoadCookies browser [] ''missing.json'' world0) \<noteq> Inl PanicIndexOutOfRange"
  by (simp add: LoadCookies_def browser_def)

section \<open>Discovery\<close>

text \<open>
  Claim C3, amended. \<^verbatim>\<open>GetDebugData\<close> fails in exactly three cases: \<^verbatim>\<open>http.Get\<close> returned
  an error, reading the body of the response returned an error, or the body could not be
  decoded into a list of targets. In every other case it returns the decoded list. The
  status code of the response plays no part: replacing it by any other leaves the result
  the same.
\<close>

theorem GetDebugData_failure_cases:
  "(isl (GetDebugData e debugPort) \<longleftrightarrow>
      (case http_Get e (''http://localhost:'' @ debugPort @ ''/json'') of
         Inl err \<Rightarrow> True
       | Inr resp \<Rightarrow>
           (case Body resp of
              Inl err \<Rightarrow> True
            | Inr body \<Rightarrow> isl (json_Unmarshal_debugList e body))))
   \<and> (\<forall>resp body debugList.
         http_Get e (''http://localhost:'' @ debugPort @ ''/json'') = Inr resp
         \<and> Body resp = Inr body \<and> json_Unmarshal_debugList e body = Inr debugList
         \<longrightarrow> GetDebugData e debugPort = Inr debugList)
   \<and> GetDebugData
        (e\<lparr>http_Get := \<lambda>u. map_sum id (\<lambda>r. r\<lparr>StatusCode := status u\<rparr>) (http_Get e u)\<rparr>)
        debugPort
       = GetDebugData e debugPort"
  by (auto simp add: GetDebugData_def split: sum.splits)

theorem GetDebugData_failure_cases_witness:
  "GetDebugData browser ''9222'' = Inr [mail_tab, docs_tab]
   \<and> \<not> isl (GetDebugData browser ''9222'')"
  using GetDebugData_failure_cases [of browser "''9222''"]
  by (simp add: browser_def)

text \<open>
  The claim as it was stated fails on a response whose status is not a success status:
  the browser that answers 404 with the body \<^verbatim>\<open>[]\<close> is discovered without an error, with
  no target.
\<close>

theorem GetDebugData_status_counterexample:
  "http_Get browser_404 ''http://localhost:9222/json''
     = Inr \<lparr>StatusCode = 404, Body = Inr ''[]''\<rparr>
   \<and> GetDebugData browser_404 ''9222'' = Inr []"
  by (simp add: GetDebugData_def browser_404_def browser_def)

section \<open>Dumping cookies: the raw mode and the read limit\<close>

text \<open>
  Claim C4. \<^verbatim>\<open>DumpCookies\<close> with the format \<^verbatim>\<open>raw\<close>, once the response has arrived and has
  been decoded: standard output receives the bytes of the response as they were received,
  followed by the newline of the \<^verbatim>\<open>Printf\<close>, and nothing else. The right-hand side
  mentions neither the filter term nor the decoded cookies: the output is the same for
  every \<open>grep\<close> and for every content of \<open>decoded\<close>.
\<close>

theorem raw_mode_echoes_response:
  assumes "debugList = d # ds"
    and "ws_Dial e (WebSocketDebuggerURL d) = None"
    and \<open>ws_Write e ''{"id": 1, "method":"Network.getAllCookies"}'' = None\<close>
    and "ws_Peer e = Message rawResponse"
    and "length rawResponse \<le> 10 * 1024 * 1024"
    and "json_Unmarshal_root e rawResponse = Inr decoded"
  shows \<open>DumpCookies e debugList ''raw'' grep w =
           (Inr (), w\<lparr>stdout := stdout w @ rawResponse @ ''\<newline>'',
              session := session w @
              [Dial (WebSocketDebuggerURL d), SetLimit 10485760,
               Write ''{"id": 1, "method":"Network.getAllCookies"}'', Read, Close]\<rparr>)\<close>
  using assms
  by (simp add: DumpCookies_def call_def SetReadLimit_def new_Conn_def ReadMessage_def
      Printf_def)

theorem raw_mode_echoes_response_witness:
  \<open>stdout (snd (DumpCookies browser [mail_tab, docs_tab] ''raw'' ''theme'' world0))
     = cookies_response @ ''\<newline>''\<close>
proof -
  have dial: "ws_Dial browser (WebSocketDebuggerURL mail_tab) = None"
    by (simp add: browser_def)
  have send: \<open>ws_Write browser ''{"id": 1, "method":"Network.getAllCookies"}'' = None\<close>
    by (simp add: browser_def)
  have peer: "ws_Peer browser = Message cookies_response"
    by (simp add: browser_def)
  have small: "length cookies_response \<le> 10 * 1024 * 1024"
    by (simp add: cookies_response_def)
  have decoded: "json_Unmarshal_root browser cookies_response
      = Inr \<lparr>WebsocketResponseRoot.ID = 1, Result = \<lparr>Cookies = [sid_cookie, theme_cookie]\<rparr>\<rparr>"
    by (simp add: browser_def)
  show ?thesis
    using raw_mode_echoes_response [OF refl dial send peer small decoded,
        of "[docs_tab]" "''theme''" world0]
    by (simp add: world0_def)
qed

text \<open>
  Claim C8. \<^verbatim>\<open>DumpCookies\<close> sets the read limit of the connection to 10 * 1024 * 1024
  bytes before it reads. When the peer sends a message longer than that, the read returns
  the read-limit error, the run ends with \<^verbatim>\<open>Failed to read response\<close>, and the message
  reaches neither the decoder nor standard output.
\<close>

theorem oversized_message_fails_read:
  assumes "debugList = d # ds"
    and "ws_Dial e (WebSocketDebuggerURL d) = None"
    and \<open>ws_Write e ''{"id": 1, "method":"Network.getAllCookies"}'' = None\<close>
    and "ws_Peer e = Message m"
    and "10 * 1024 * 1024 < length m"
  shows \<open>DumpCookies e debugList format grep w =
           (Inl (Fatal (FailedToReadResponse ErrReadLimit)),
            w\<lparr>session := session w @
              [Dial (WebSocketDebuggerURL d), SetLimit 10485760,
               Write ''{"id": 1, "method":"Network.getAllCookies"}'', Read]\<rparr>)\<close>
  using assms
  by (simp add: DumpCookies_def call_def SetReadLimit_def new_Conn_def ReadMessage_def)

theorem oversized_message_fails_read_witness:
  \<open>DumpCookies (browser\<lparr>ws_Peer := Message (replicate 10485761 CHR ''x'')\<rparr>)
      [mail_tab, docs_tab] ''human'' [] world0 =
     (Inl (Fatal (FailedToReadResponse ''websocket: read limit exceeded'')),
      world0\<lparr>session :=
        [Dial ''ws://localhost:9222/devtools/page/A1'', SetLimit 10485760,
         Write ''{"id": 1, "method":"Network.getAllCookies"}'', Read]\<rparr>)\<close>
proof -
  let ?e = "browser\<lparr>ws_Peer := Message (replicate 10485761 CHR ''x'')\<rparr>"
  have dial: "ws_Dial ?e (WebSocketDebuggerURL mail_tab) = None"
    by (simp add: browser_def)
  have send: \<open>ws_Write ?e ''{"id": 1, "method":"Network.getAllCookies"}'' = None\<close>
    by (simp add: browser_def)
  have peer: "ws_Peer ?e = Message (replicate 10485761 CHR ''x'')"
    by simp
  have big: "10 * 1024 * 1024 < length (replicate 10485761 CHR ''x'')"
    by simp
  show ?thesis
    using oversized_message_fails_read [OF refl dial send peer big,
        of "[docs_tab]" "''human''" "[]" world0]
    by (simp add: world0_def mail_tab_def ErrReadLimit_def)
qed

lemma human_loop_fold:
  "human_loop e (0 < length grep) grep cs w =
     fold (print_Cookie e) (filter (keep_cookie grep) cs) w"
proof (induction cs arbitrary: w)
  case Nil
  show ?case by simp
next
  case (Cons c cs)
  show ?case
    using Cons.IH cookie_test_iff [of grep c]
    by (cases "keep_cookie grep c") (simp_all del: length_greater_0_conv)
qed

lemma lightCookie_loop_eq:
  "lightCookie_loop e (0 < length grep) grep cs acc w =
     (acc @ map (\<lambda>(k, c).
                \<lparr>LightCookie.Name = Cookie.Name c, LightCookie.Value = Cookie.Value c,
                 LightCookie.Domain = Cookie.Domain c, LightCookie.Path = Cookie.Path c,
                 LightCookie.Expires = float64_of_int64 (unix_clock e k + 315360000)\<rparr>)
            (enumerate (clock_reads w) (filter (keep_cookie grep) cs)),
      w\<lparr>clock_reads := clock_reads w + length (filter (keep_cookie grep) cs)\<rparr>)"
proof (induction cs arbitrary: acc w)
  case Nil
  show ?case by simp
next
  case (Cons c cs)
  show ?case
  proof (cases "keep_cookie grep c")
    case True
    then show ?thesis
      using cookie_test_iff [of grep c]
      by (simp add: Cons.IH time_Now_Unix_def del: length_greater_0_conv)
  next
    case False
    then show ?thesis
      using cookie_test_iff [of grep c]
      by (simp add: Cons.IH del: length_greater_0_conv)
  qed
qed

lemma lightCookie_loop_ignores_Expires:
  "lightCookie_loop e grepFlag grep (map (\<lambda>c. c\<lparr>Cookie.Expires := x c\<rparr>) cs) acc w
     = lightCookie_loop e grepFlag grep cs acc w"
  by (induction cs arbitrary: acc w) (auto simp add: time_Now_Unix_def)

lemma print_Cookie_decoder: "print_Cookie (e\<lparr>json_Unmarshal_root := f\<rparr>) = print_Cookie e"
  by (rule ext, rule ext) (simp add: print_Cookie_def)

lemma session_print_Cookie: "session (print_Cookie e c w) = session w"
  by (simp add: print_Cookie_def Printf_def)

lemma session_fold_print_Cookie: "session (fold (print_Cookie e) cs w) = session w"
  by (induction cs arbitrary: w) (simp_all add: session_print_Cookie)

lemma round_float64_exact:
  assumes "- (2 ^ 53) \<le> k" and "k \<le> 2 ^ 53"
  shows "round_float64 k = of_int k"
proof (cases "\<bar>k\<bar> < 2 ^ 53")
  case True
  then have "bitlen \<bar>k\<bar> \<le> 53"
    by (simp add: bitlen_le_iff_power)
  then show ?thesis
    by (simp add: round_float64_def Let_def)
next
  case False
  with assms have "k = 2 ^ 53 \<or> k = - (2 ^ 53)"
    by linarith
  moreover have "bitlen (2 ^ 53) = 54"
    using bitlen_pow2 [of 1 53] by (simp add: bitlen_alt_def)
  ultimately show ?thesis
    by (auto simp add: round_float64_def Let_def)
qed

lemma expiry_exact:
  assumes "- (2 ^ 53) \<le> sint now + 315360000" and "sint now + 315360000 \<le> 2 ^ 53"
  shows "float64_of_int64 (now + 315360000) = of_int (sint (now :: 64 word) + 315360000)"
proof -
  have "sint (now + 315360000) = sint now + 315360000"
    using assms by (simp add: sint_word_add signed_take_bit_int_eq_self)
  with assms show ?thesis
    by (simp only: float64_of_int64_def round_float64_exact)
qed

text \<open>What the three operations do to the connection on a list with a first target.\<close>

lemma DumpCookies_dialled:
  "dialled (snd (DumpCookies e (d # ds) format grep w)) = dialled w @ [WebSocketDebuggerURL d]"
  by (auto simp add: DumpCookies_def Let_def call_def Printf_def dialled_def
      lightCookie_loop_eq human_loop_fold session_fold_print_Cookie
      simp del: length_greater_0_conv
      split: option.splits received.splits sum.splits)

lemma ClearCookies_dialled:
  "dialled (snd (ClearCookies e (d # ds) w)) = dialled w @ [WebSocketDebuggerURL d]"
  by (auto simp add: ClearCookies_def Let_def call_def dialled_def split: option.splits)

lemma LoadCookies_dialled:
  "dialled (snd (LoadCookies e (d # ds) load w)) =
     dialled w @ (if isl (os_ReadFile e load) then [] else [WebSocketDebuggerURL d])"
  by (auto simp add: LoadCookies_def Let_def call_def dialled_def
      split: option.splits sum.splits)

lemma DumpCookies_written:
  \<open>set (written (snd (DumpCookies e debugList format grep w)))
     \<subseteq> set (written w) \<union> {''{"id": 1, "method":"Network.getAllCookies"}''}\<close>
  by (auto simp add: DumpCookies_def Let_def call_def Printf_def written_def
      lightCookie_loop_eq human_loop_fold session_fold_print_Cookie
      simp del: length_greater_0_conv
      split: list.splits option.splits received.splits sum.splits)

lemma ClearCookies_written:
  \<open>set (written (snd (ClearCookies e debugList w)))
     \<subseteq> set (written w) \<union> {''{"id": 1, "method": "Network.clearBrowserCookies"}''}\<close>
  by (auto simp add: ClearCookies_def Let_def call_def written_def
      split: list.splits option.splits)

lemma LoadCookies_written:
  \<open>set (written (snd (LoadCookies e debugList load w)))
     \<subseteq> set (written w)
       \<union> (case os_ReadFile e load of
            Inl err \<Rightarrow> {}
          | Inr content \<Rightarrow>
              {''{"id": 1, "method":"Network.setCookies", "params":{"cookies":''
                 @ content @ ''}}''})\<close>
  by (auto simp add: LoadCookies_def Let_def call_def written_def
      split: list.splits option.splits sum.splits)

section \<open>Which target the operations talk to\<close>

text \<open>
  Claim C7. On a list of targets with first entry \<open>d\<close>, whatever the rest \<open>ds\<close> of the list
  is: \<^verbatim>\<open>DumpCookies\<close> and \<^verbatim>\<open>ClearCookies\<close> dial exactly one address, the
  \<^verbatim>\<open>WebSocketDebuggerURL\<close> of \<open>d\<close>; so does \<^verbatim>\<open>LoadCookies\<close> once it has read its file
  (when the file cannot be read it stops before it dials at all).
\<close>

theorem operations_dial_first_target:
  "dialled (snd (DumpCookies e (d # ds) format grep w)) = dialled w @ [WebSocketDebuggerURL d]
   \<and> dialled (snd (ClearCookies e (d # ds) w)) = dialled w @ [WebSocketDebuggerURL d]
   \<and> dialled (snd (LoadCookies e (d # ds) load w)) =
       dialled w @ (if isl (os_ReadFile e load) then [] else [WebSocketDebuggerURL d])"
  by (simp only: DumpCookies_dialled ClearCookies_dialled LoadCookies_dialled)

theorem operations_dial_first_target_witness:
  "dialled (snd (DumpCookies browser [mail_tab, docs_tab] ''human'' [] world0))
     = [''ws://localhost:9222/devtools/page/A1'']
   \<and> dialled (snd (ClearCookies browser [mail_tab, docs_tab] world0))
     = [''ws://localhost:9222/devtools/page/A1'']
   \<and> dialled (snd (LoadCookies browser [mail_tab, docs_tab] ''cookies.json'' world0))
     = [''ws://localhost:9222/devtools/page/A1'']"
  using operations_dial_first_target
    [of browser mail_tab "[docs_tab]" "''human''" "[]" world0 "''cookies.json''"]
  by (simp add: browser_def mail_tab_def world0_def dialled_def)

section \<open>The command id\<close>

text \<open>
  Claim C9. Every message that one of the three operations writes to the connection begins
  with \<^verbatim>\<open>{"id": 1, \<close>: the id of the command is the constant 1. And \<^verbatim>\<open>DumpCookies\<close> never
  looks at the id of the response: if the decoder is changed so that every decoded response
  carries another id (\<open>i b\<close>, any function of the received bytes), the result and the
  effects of \<^verbatim>\<open>DumpCookies\<close> are the same.
\<close>

theorem fixed_command_id_and_unchecked_response_id:
  \<open>(\<forall>m \<in> set (written (snd (DumpCookies e debugList format grep w))).
       m \<in> set (written w) \<or> prefix ''{"id": 1, '' m)
   \<and> (\<forall>m \<in> set (written (snd (ClearCookies e debugList w))).
       m \<in> set (written w) \<or> prefix ''{"id": 1, '' m)
   \<and> (\<forall>m \<in> set (written (snd (LoadCookies e debugList load w))).
       m \<in> set (written w) \<or> prefix ''{"id": 1, '' m)
   \<and> DumpCookies
        (e\<lparr>json_Unmarshal_root :=
             \<lambda>b. map_sum id (\<lambda>r. r\<lparr>WebsocketResponseRoot.ID := i b\<rparr>) (json_Unmarshal_root e b)\<rparr>)
        debugList format grep w
       = DumpCookies e debugList format grep w\<close>
proof -
  have dump: \<open>\<forall>m \<in> set (written (snd (DumpCookies e debugList format grep w))).
       m \<in> set (written w) \<or> prefix ''{"id": 1, '' m\<close>
    using DumpCookies_written [of e debugList format grep w] by auto
  have clear: \<open>\<forall>m \<in> set (written (snd (ClearCookies e debugList w))).
       m \<in> set (written w) \<or> prefix ''{"id": 1, '' m\<close>
    using ClearCookies_written [of e debugList w] by auto
  have load: \<open>\<forall>m \<in> set (written (snd (LoadCookies e debugList load w))).
       m \<in> set (written w) \<or> prefix ''{"id": 1, '' m\<close>
    using LoadCookies_written [of e debugList load w]
    by (cases "os_ReadFile e load") auto
  have same: \<open>DumpCookies
        (e\<lparr>json_Unmarshal_root :=
             \<lambda>b. map_sum id (\<lambda>r. r\<lparr>WebsocketResponseRoot.ID := i b\<rparr>) (json_Unmarshal_root e b)\<rparr>)
        debugList format grep w
       = DumpCookies e debugList format grep w\<close>
    by (auto simp add: DumpCookies_def Let_def ReadMessage_def
        lightCookie_loop_eq human_loop_fold print_Cookie_decoder
        simp del: length_greater_0_conv
        split: list.splits option.splits received.splits sum.splits)
  from dump clear load same show ?thesis
    by (intro conjI)
qed

theorem fixed_command_id_and_unchecked_response_id_witness:
  \<open>written (snd (DumpCookies browser [mail_tab] ''raw'' [] world0))
     = [''{"id": 1, "method":"Network.getAllCookies"}'']
   \<and> prefix ''{"id": 1, '' ''{"id": 1, "method":"Network.getAllCookies"}''
   \<and> DumpCookies
        (browser\<lparr>json_Unmarshal_root :=
             \<lambda>b. map_sum id (\<lambda>r. r\<lparr>WebsocketResponseRoot.ID := 7\<rparr>) (json_Unmarshal_root browser b)\<rparr>)
        [mail_tab] ''raw'' [] world0
       = DumpCookies browser [mail_tab] ''raw'' [] world0\<close>
proof -
  have run: \<open>written (snd (DumpCookies browser [mail_tab] ''raw'' [] world0))
     = [''{"id": 1, "method":"Network.getAllCookies"}'']\<close>
    by (simp add: DumpCookies_def browser_def ReadMessage_def SetReadLimit_def new_Conn_def
        call_def Printf_def written_def world0_def cookies_response_def)
  show ?thesis
    using run fixed_command_id_and_unchecked_response_id
      [of browser "[mail_tab]" "''raw''" "[]" world0 "''cookies.json''" "\<lambda>b. 7"]
    by simp
qed
section \<open>The filter\<close>


section \<open>The modified mode\<close>

text \<open>
  Claim C1. The loop of the modified mode, for every list of cookies and every filter term,
  when each clock reading it takes is one whose sum with ten years has an exact
  \<^verbatim>\<open>float64\<close> (at most \<open>2 ^ 53\<close> in absolute value; today's readings are near
  \<open>2 ^ 31\<close>): it returns one \<^verbatim>\<open>LightCookie\<close> per kept cookie, in the order of the input,
  the k-th made from the k-th kept cookie and the k-th reading of the clock, with name,
  value, domain and path copied and the expiry 315360000 seconds after that reading. The
  expiry of the input does not matter: overwriting it in every cookie leaves the result the
  same. And \<^verbatim>\<open>DumpCookies\<close> with the format \<^verbatim>\<open>modified\<close>, once the response has arrived and
  been decoded, hands exactly this list to \<^verbatim>\<open>json.Marshal\<close> and prints the outcome.
\<close>

theorem modified_mode_transcoding:
  assumes "\<forall>k. clock_reads w \<le> k
               \<and> k < clock_reads w + length (filter (keep_cookie grep) cookies)
             \<longrightarrow> - (2 ^ 53) \<le> sint (unix_clock e k) + 315360000
                 \<and> sint (unix_clock e k) + 315360000 \<le> 2 ^ 53"
  shows \<open>(let kept = filter (keep_cookie grep) cookies;
               reduced = map (\<lambda>(k, c). reduced_at (sint (unix_clock e k)) c)
                           (enumerate (clock_reads w) kept)
           in lightCookie_loop e (0 < length grep) grep cookies [] w
                = (reduced, w\<lparr>clock_reads := clock_reads w + length kept\<rparr>)
              \<and> lightCookie_loop e (0 < length grep) grep
                   (map (\<lambda>c. c\<lparr>Cookie.Expires := x c\<rparr>) cookies) [] w
                 = lightCookie_loop e (0 < length grep) grep cookies [] w
              \<and> (debugList = d # ds
                  \<and> ws_Dial e (WebSocketDebuggerURL d) = None
                  \<and> ws_Write e ''{"id": 1, "method":"Network.getAllCookies"}'' = None
                  \<and> ws_Peer e = Message rawResponse
                  \<and> length rawResponse \<le> 10 * 1024 * 1024
                  \<and> json_Unmarshal_root e rawResponse = Inr decoded
                  \<and> Cookies (Result decoded) = cookies
                  \<and> json_Marshal e reduced = Inr lightCookieJSON
                  \<longrightarrow> DumpCookies e debugList ''modified'' grep w =
                        (Inr (),
                         w\<lparr>stdout := stdout w @ lightCookieJSON @ ''\<newline>'',
                           session := session w @
                             [Dial (WebSocketDebuggerURL d), SetLimit 10485760,
                              Write ''{"id": 1, "method":"Network.getAllCookies"}'',
                              Read, Close],
                           clock_reads := clock_reads w + length kept\<rparr>)))\<close>
proof -
  let ?kept = "filter (keep_cookie grep) cookies"
  let ?reduced = "map (\<lambda>(k, c). reduced_at (sint (unix_clock e k)) c)
                    (enumerate (clock_reads w) ?kept)"
  have same_records:
    "map (\<lambda>(k, c).
            \<lparr>LightCookie.Name = Cookie.Name c, LightCookie.Value = Cookie.Value c,
             LightCookie.Domain = Cookie.Domain c, LightCookie.Path = Cookie.Path c,
             LightCookie.Expires = float64_of_int64 (unix_clock e k + 315360000)\<rparr>)
       (enumerate (clock_reads w) ?kept) = ?reduced"
  proof (rule map_cong [OF refl])
    fix p
    assume "p \<in> set (enumerate (clock_reads w) ?kept)"
    then have "clock_reads w \<le> fst p" and "fst p < clock_reads w + length ?kept"
      by (simp_all add: in_set_enumerate_eq add.commute)
    with assms have "- (2 ^ 53) \<le> sint (unix_clock e (fst p)) + 315360000"
      and "sint (unix_clock e (fst p)) + 315360000 \<le> 2 ^ 53"
      by blast+
    then have "float64_of_int64 (unix_clock e (fst p) + 315360000)
                 = of_int (sint (unix_clock e (fst p)) + 315360000)"
      by (rule expiry_exact)
    then show "(case p of (k, c) \<Rightarrow>
            \<lparr>LightCookie.Name = Cookie.Name c, LightCookie.Value = Cookie.Value c,
             LightCookie.Domain = Cookie.Domain c, LightCookie.Path = Cookie.Path c,
             LightCookie.Expires = float64_of_int64 (unix_clock e k + 315360000)\<rparr>)
          = (case p of (k, c) \<Rightarrow> reduced_at (sint (unix_clock e k)) c)"
      by (simp only: reduced_at_def case_prod_beta)
  qed
  have loop: "lightCookie_loop e (0 < length grep) grep cookies [] w
                = (?reduced, w\<lparr>clock_reads := clock_reads w + length ?kept\<rparr>)"
    by (simp only: lightCookie_loop_eq same_records append_Nil)
  have expiry: "lightCookie_loop e (0 < length grep) grep
                   (map (\<lambda>c. c\<lparr>Cookie.Expires := x c\<rparr>) cookies) [] w
                 = lightCookie_loop e (0 < length grep) grep cookies [] w"
    by (rule lightCookie_loop_ignores_Expires)
  have dump: \<open>DumpCookies e debugList ''modified'' grep w =
                        (Inr (),
                         w\<lparr>stdout := stdout w @ lightCookieJSON @ ''\<newline>'',
                           session := session w @
                             [Dial (WebSocketDebuggerURL d), SetLimit 10485760,
                              Write ''{"id": 1, "method":"Network.getAllCookies"}'',
                              Read, Close],
                           clock_reads := clock_reads w + length ?kept\<rparr>)\<close>
    if stage: "debugList = d # ds" "ws_Dial e (WebSocketDebuggerURL d) = None"
      \<open>ws_Write e ''{"id": 1, "method":"Network.getAllCookies"}'' = None\<close>
      "ws_Peer e = Message rawResponse" "length rawResponse \<le> 10 * 1024 * 1024"
      "json_Unmarshal_root e rawResponse = Inr decoded" "Cookies (Result decoded) = cookies"
      "json_Marshal e ?reduced = Inr lightCookieJSON"
  proof -
    let ?w4 = "w\<lparr>session := session w @
                 [Dial (WebSocketDebuggerURL d), SetLimit 10485760,
                  Write ''{\"id\": 1, \"method\":\"Network.getAllCookies\"}'', Read]\<rparr>"
    have "lightCookie_loop e (0 < length grep) grep cookies [] ?w4
            = (?reduced, ?w4\<lparr>clock_reads := clock_reads w + length ?kept\<rparr>)"
      using same_records by (simp only: lightCookie_loop_eq append_Nil) simp
    with stage show ?thesis
      by (simp add: DumpCookies_def call_def SetReadLimit_def new_Conn_def ReadMessage_def
          Printf_def del: length_greater_0_conv)
  qed
  have dump': \<open>debugList = d # ds
                  \<and> ws_Dial e (WebSocketDebuggerURL d) = None
                  \<and> ws_Write e ''{"id": 1, "method":"Network.getAllCookies"}'' = None
                  \<and> ws_Peer e = Message rawResponse
                  \<and> length rawResponse \<le> 10 * 1024 * 1024
                  \<and> json_Unmarshal_root e rawResponse = Inr decoded
                  \<and> Cookies (Result decoded) = cookies
                  \<and> json_Marshal e ?reduced = Inr lightCookieJSON
                  \<longrightarrow> DumpCookies e debugList ''modified'' grep w =
                        (Inr (),
                         w\<lparr>stdout := stdout w @ lightCookieJSON @ ''\<newline>'',
                           session := session w @
                             [Dial (WebSocketDebuggerURL d), SetLimit 10485760,
                              Write ''{"id": 1, "method":"Network.getAllCookies"}'',
                              Read, Close],
                           clock_reads := clock_reads w + length ?kept\<rparr>)\<close>
    by (intro impI, elim conjE, rule dump; assumption)
  show ?thesis
    unfolding Let_def by (rule conjI [OF loop conjI [OF expiry dump']])
qed

text \<open>The two cookies of the browser, transcoded without a filter term while the clock moves
  from 1700000000 to 1700000001: the second record expires a second after the first, and
  the session cookie's own expiry of -1 has left no trace.\<close>

theorem modified_mode_transcoding_witness:
  "lightCookie_loop browser (0 < length []) [] [sid_cookie, theme_cookie] [] world0
     = ([reduced_at 1700000000 sid_cookie, reduced_at 1700000001 theme_cookie],
        world0\<lparr>clock_reads := 2\<rparr>)
   \<and> LightCookie.Expires (reduced_at 1700000001 theme_cookie) = 2015360001"
proof -
  have exact: "\<forall>k. clock_reads world0 \<le> k
               \<and> k < clock_reads world0
                     + length (filter (keep_cookie []) [sid_cookie, theme_cookie])
             \<longrightarrow> - (2 ^ 53) \<le> sint (unix_clock browser k) + 315360000
                 \<and> sint (unix_clock browser k) + 315360000 \<le> 2 ^ 53"
    by (simp add: browser_def)
  show ?thesis
    using modified_mode_transcoding [OF exact, of "\<lambda>c. 0" "[mail_tab, docs_tab]" mail_tab
        "[docs_tab]" cookies_response
        "\<lparr>WebsocketResponseRoot.ID = 1, Result = \<lparr>Cookies = [sid_cookie, theme_cookie]\<rparr>\<rparr>"
        "[]"]
    by (simp add: Let_def keep_cookie_def browser_def world0_def reduced_at_def)
qed

end
